theory Spec2Isabelle
  imports Main
begin

section \<open>QuickResizer: the image processing utilities of \<^verbatim>\<open>image_processing.py\<close>\<close>

text \<open>
  The module resolves a preset to target dimensions, normalises colour modes, resizes by
  one of three strategies, converts formats, generates file names, drives a batch and
  builds a ZIP archive. Its own functions are embedded here one by one, under their own
  names. The calls it makes into Pillow, \<^verbatim>\<open>zipfile\<close> and the Python float arithmetic are
  embedded as far as the module's results depend on them: an image is the history of the
  Pillow operations that made it (so that mode, size and the origin of every pixel can be
  read off), floats are IEEE doubles computed exactly on integers, and the codecs
  (\<^verbatim>\<open>Image.open\<close>, \<^verbatim>\<open>Image.save\<close>) are parameters.
\<close>

subsection \<open>Exceptions\<close>

datatype error =
    ValueError string
  | ZeroDivisionError
  | OverflowError
  | UnidentifiedImageError
  | KeyError string
  | OSError string
  | IndexError
  | StructError

subsection \<open>Python numbers: integers and IEEE doubles\<close>

text \<open>
  Python integers are unbounded (\<open>int\<close>). A finite double is \<open>Finite m e\<close>, the number
  \<open>m * 2 ^ e\<close>; \<open>Inf\<close> is an overflowed product. \<open>bit_length\<close> is \<^verbatim>\<open>int.bit_length\<close>.
\<close>

datatype pyfloat = Finite int int | Inf

function bit_length :: "int \<Rightarrow> int" where
  "bit_length n = (if n \<le> 0 then 0 else 1 + bit_length (n div 2))"
  by pat_completeness auto
termination
  by (relation "measure nat") auto

declare bit_length.simps [simp del]

text \<open>\<open>scaled_le b k n\<close> is \<open>b * 2 ^ k \<le> n\<close> for an exponent \<open>k\<close> of either sign.\<close>

definition scaled_le :: "int \<Rightarrow> int \<Rightarrow> int \<Rightarrow> bool" where
  "scaled_le b k n = (if 0 \<le> k then b * 2 ^ nat k \<le> n else b \<le> n * 2 ^ nat (- k))"

text \<open>
  \<open>round_ratio a b\<close>, for \<open>0 < b\<close>, is the double nearest to \<open>a / b\<close>, ties to even: 53
  bits of mantissa in the normal range, the fixed quantum \<open>2 ^ - 1074\<close> below it. The
  result is not bounded above here; \<open>overflows\<close> says when it is beyond the largest double.
\<close>

definition round_ratio :: "int \<Rightarrow> int \<Rightarrow> int \<times> int" where
  "round_ratio a b =
     (if a = 0 then (0, 0)
      else
        let n = \<bar>a\<bar>;
            k = bit_length n - bit_length b;
            binade = (if scaled_le b k n then k else k - 1);
            e = max (binade - 52) (- 1074);
            N = (if e < 0 then n * 2 ^ nat (- e) else n);
            D = (if e < 0 then b else b * 2 ^ nat e);
            m = N div D;
            r = N mod D;
            m' = (if 2 * r < D then m else if D < 2 * r then m + 1
                  else if even m then m else m + 1)
        in (sgn a * m', e))"

definition overflows :: "int \<times> int \<Rightarrow> bool" where
  "overflows me = (1024 < bit_length \<bar>fst me\<bar> + snd me)"

text \<open>\<^verbatim>\<open>a / b\<close> on two ints: correctly rounded, raising on a zero divisor and on overflow.\<close>

definition py_truediv :: "int \<Rightarrow> int \<Rightarrow> error + pyfloat" where
  "py_truediv a b =
     (if b = 0 then Inl ZeroDivisionError
      else
        let me = round_ratio (a * sgn b) \<bar>b\<bar>
        in if overflows me then Inl OverflowError else Inr (Finite (fst me) (snd me)))"

text \<open>The conversion of an int operand to a double, which \<^verbatim>\<open>int * float\<close> and \<^verbatim>\<open>int / float\<close> do first.\<close>

definition py_float :: "int \<Rightarrow> error + pyfloat" where
  "py_float a =
     (let me = round_ratio a 1
      in if overflows me then Inl OverflowError else Inr (Finite (fst me) (snd me)))"

text \<open>The rounding of the exact number \<open>p * 2 ^ e\<close>, overflowing silently to \<open>Inf\<close>.\<close>

definition round_scaled :: "int \<Rightarrow> int \<Rightarrow> pyfloat" where
  "round_scaled p e =
     (let me = (if 0 \<le> e then round_ratio (p * 2 ^ nat e) 1 else round_ratio p (2 ^ nat (- e)))
      in if overflows me then Inf else Finite (fst me) (snd me))"

fun float_mul :: "pyfloat \<Rightarrow> pyfloat \<Rightarrow> pyfloat" where
  "float_mul (Finite m1 e1) (Finite m2 e2) = round_scaled (m1 * m2) (e1 + e2)"
| "float_mul _ _ = Inf"

text \<open>\<^verbatim>\<open>n * x\<close> and \<^verbatim>\<open>n / x\<close> for an int \<open>n\<close> and a float \<open>x\<close>.\<close>

definition py_mul_int_float :: "int \<Rightarrow> pyfloat \<Rightarrow> error + pyfloat" where
  "py_mul_int_float n x = (case py_float n of Inl err \<Rightarrow> Inl err | Inr f \<Rightarrow> Inr (float_mul f x))"

fun float_div :: "pyfloat \<Rightarrow> pyfloat \<Rightarrow> error + pyfloat" where
  "float_div (Finite m1 e1) (Finite m2 e2) =
     (if m2 = 0 then Inl ZeroDivisionError
      else
        let e = e1 - e2;
            me = (if 0 \<le> e then round_ratio (m1 * sgn m2 * 2 ^ nat e) \<bar>m2\<bar>
                  else round_ratio (m1 * sgn m2) (\<bar>m2\<bar> * 2 ^ nat (- e)))
        in Inr (if overflows me then Inf else Finite (fst me) (snd me)))"
| "float_div (Finite m1 e1) Inf = Inr (Finite 0 0)"
| "float_div Inf _ = Inr Inf"

definition py_div_int_float :: "int \<Rightarrow> pyfloat \<Rightarrow> error + pyfloat" where
  "py_div_int_float n x = (case py_float n of Inl err \<Rightarrow> Inl err | Inr f \<Rightarrow> float_div f x)"

text \<open>\<^verbatim>\<open>x < y\<close> on floats, and \<^verbatim>\<open>min(x, y)\<close>, which returns \<open>y\<close> only when \<open>y < x\<close>.\<close>

fun float_less :: "pyfloat \<Rightarrow> pyfloat \<Rightarrow> bool" where
  "float_less (Finite m1 e1) (Finite m2 e2) =
     (let e = min e1 e2 in m1 * 2 ^ nat (e1 - e) < m2 * 2 ^ nat (e2 - e))"
| "float_less (Finite m1 e1) Inf = True"
| "float_less Inf _ = False"

definition float_min :: "pyfloat \<Rightarrow> pyfloat \<Rightarrow> pyfloat" where
  "float_min x y = (if float_less y x then y else x)"

text \<open>\<^verbatim>\<open>int(x)\<close>: truncation towards zero; an infinity raises.\<close>

fun py_int :: "pyfloat \<Rightarrow> error + int" where
  "py_int (Finite m e) =
     Inr (if 0 \<le> e then m * 2 ^ nat e else sgn m * (\<bar>m\<bar> div 2 ^ nat (- e)))"
| "py_int Inf = Inl OverflowError"

subsection \<open>Python strings\<close>

text \<open>
  A string is a list of characters. \<open>py_upper\<close> and \<open>py_lower\<close> are \<^verbatim>\<open>str.upper\<close> and
  \<^verbatim>\<open>str.lower\<close> on the ASCII letters, and leave every other character as it is.
\<close>

definition upper_char :: "char \<Rightarrow> char" where
  "upper_char c =
     (case map_of (zip ''abcdefghijklmnopqrstuvwxyz'' ''ABCDEFGHIJKLMNOPQRSTUVWXYZ'') c of
        None \<Rightarrow> c | Some u \<Rightarrow> u)"

definition lower_char :: "char \<Rightarrow> char" where
  "lower_char c =
     (case map_of (zip ''ABCDEFGHIJKLMNOPQRSTUVWXYZ'' ''abcdefghijklmnopqrstuvwxyz'') c of
        None \<Rightarrow> c | Some l \<Rightarrow> l)"

definition py_upper :: "string \<Rightarrow> string" where
  "py_upper s = map upper_char s"

definition py_lower :: "string \<Rightarrow> string" where
  "py_lower s = map lower_char s"

text \<open>
  \<open>rsplit_dot s\<close> is \<^verbatim>\<open>s.rsplit('.', 1)\<close> for a string that holds a dot: the text before
  the last dot and the text after it.
\<close>

definition rsplit_dot :: "string \<Rightarrow> string \<times> string" where
  "rsplit_dot s =
     (let t = takeWhile (\<lambda>c. c \<noteq> CHR ''.'') (rev s)
      in (rev (drop (Suc (length t)) (rev s)), rev t))"

text \<open>The decimal digits of a natural number, as \<^verbatim>\<open>str\<close> writes them.\<close>

fun decimal :: "nat \<Rightarrow> string" where
  "decimal n =
     (if n < 10 then [''0123456789'' ! n]
      else decimal (n div 10) @ [''0123456789'' ! (n mod 10)])"

declare decimal.simps [simp del]

text \<open>
  \<open>format_04d\<close> is the format specification \<^verbatim>\<open>04d\<close>: zero fill to width 4, the sign, when
  there is one, first and counted in the width.
\<close>

definition zfill :: "nat \<Rightarrow> string \<Rightarrow> string" where
  "zfill w s = replicate (w - length s) CHR ''0'' @ s"

definition format_04d :: "int \<Rightarrow> string" where
  "format_04d i =
     (if i < 0 then CHR ''-'' # zfill 3 (decimal (nat (- i))) else zfill 4 (decimal (nat i)))"

subsection \<open>\<^verbatim>\<open>generate_filename\<close>\<close>

text \<open>
  The keyword defaults of the source (empty prefix and suffix, no numbering, no
  extension) are passed explicitly. The test \<^verbatim>\<open>extension if extension else orig_ext\<close>
  takes \<^verbatim>\<open>None\<close> and the empty string alike.
\<close>

definition generate_filename ::
  "string \<Rightarrow> int \<Rightarrow> string \<Rightarrow> string \<Rightarrow> bool \<Rightarrow> string option \<Rightarrow> string" where
  "generate_filename original_name index prefix suffix use_numbering extension =
     (let (base_name, orig_ext) =
            (if CHR ''.'' \<in> set original_name
             then (fst (rsplit_dot original_name), CHR ''.'' # snd (rsplit_dot original_name))
             else (original_name, []));
          new_name = prefix @ base_name @ suffix;
          new_name = (if use_numbering then new_name @ ''_'' @ format_04d index else new_name);
          final_ext = (case extension of None \<Rightarrow> orig_ext
                       | Some ext \<Rightarrow> if ext = [] then orig_ext else ext)
      in new_name @ final_ext)"

subsection \<open>The filename rule as the specification words it\<close>

text \<open>
  Strip the original name's extension (the text after the last dot, if any); the new base
  is prefix, stripped base, suffix; with numbering, an underscore and the index
  zero-padded to 4 digits follow; the final extension ends the name. These definitions
  follow that wording and are compared with \<open>generate_filename\<close> below.
\<close>

fun spec_strip_extension :: "string \<Rightarrow> string" where
  "spec_strip_extension [] = []"
| "spec_strip_extension (c # cs) =
     (if CHR ''.'' \<in> set cs then c # spec_strip_extension cs
      else if c = CHR ''.'' then [] else c # cs)"

fun spec_original_extension :: "string \<Rightarrow> string" where
  "spec_original_extension [] = []"
| "spec_original_extension (c # cs) =
     (if CHR ''.'' \<in> set cs then spec_original_extension cs
      else if c = CHR ''.'' then c # cs else [])"

function spec_zero_pad :: "nat \<Rightarrow> string \<Rightarrow> string" where
  "spec_zero_pad w s = (if length s < w then spec_zero_pad w (CHR ''0'' # s) else s)"
  by pat_completeness auto
termination
  by (relation "measure (\<lambda>(w, s). w - length s)") auto

declare spec_zero_pad.simps [simp del]

definition spec_filename ::
  "string \<Rightarrow> nat \<Rightarrow> string \<Rightarrow> string \<Rightarrow> bool \<Rightarrow> string \<Rightarrow> string" where
  "spec_filename original_name index prefix suffix numbered final_extension =
     prefix @ spec_strip_extension original_name @ suffix
       @ (if numbered then ''_'' @ spec_zero_pad 4 (decimal index) else [])
       @ final_extension"

subsection \<open>Sequencing of calls that may raise\<close>

text \<open>
  A call that may raise returns \<open>error + 'a\<close>, \<open>Inl\<close> the exception. \<open>and_then m f\<close> runs
  \<open>f\<close> on the value of \<open>m\<close> and passes an exception of \<open>m\<close> on, as a statement after
  another does.
\<close>

fun and_then :: "error + 'a \<Rightarrow> ('a \<Rightarrow> error + 'b) \<Rightarrow> error + 'b" where
  "and_then (Inl err) f = Inl err"
| "and_then (Inr x) f = f x"

subsection \<open>Pillow images\<close>

text \<open>
  An image is the history of the Pillow calls that made it: the decoded file, a canvas of
  \<^verbatim>\<open>Image.new\<close>, or the result of \<^verbatim>\<open>convert\<close>, \<^verbatim>\<open>resize\<close> (the module always resamples
  with LANCZOS), \<^verbatim>\<open>crop\<close>, \<^verbatim>\<open>paste\<close> (destination, pasted image, upper left corner,
  mask) and \<^verbatim>\<open>split()[-1]\<close>. Mode and size are read off the history.
\<close>

type_synonym bytes = "nat list"

type_synonym color = "int \<times> int \<times> int"

datatype image =
    Decoded string "int \<times> int" bytes
  | New string "int \<times> int" color
  | Convert string image
  | Resize "int \<times> int" image
  | Crop "int \<times> int \<times> int \<times> int" image
  | Paste image image "int \<times> int" "image option"
  | Last_band image

fun im_mode :: "image \<Rightarrow> string" where
  "im_mode (Decoded m s d) = m"
| "im_mode (New m s c) = m"
| "im_mode (Convert m im) = m"
| "im_mode (Resize s im) = im_mode im"
| "im_mode (Crop b im) = im_mode im"
| "im_mode (Paste base im pos msk) = im_mode base"
| "im_mode (Last_band im) = ''L''"

fun im_size :: "image \<Rightarrow> int \<times> int" where
  "im_size (Decoded m s d) = s"
| "im_size (New m s c) = s"
| "im_size (Convert m im) = im_size im"
| "im_size (Resize s im) = s"
| "im_size (Crop (left, upper, right, lower) im) = (right - left, lower - upper)"
| "im_size (Paste base im pos msk) = im_size base"
| "im_size (Last_band im) = im_size im"

text \<open>
  The calls, with the checks Pillow makes on their arguments: \<^verbatim>\<open>Image.new\<close> refuses a
  negative size, \<^verbatim>\<open>resize\<close> returns a copy when the size is the image's own and refuses
  a requested width or height below 1, \<^verbatim>\<open>crop\<close> refuses a box whose right or lower edge
  is before its left or upper edge. \<^verbatim>\<open>paste\<close> changes its destination in place; here it
  returns the changed destination. The limits of memory and of the C integers that hold
  a size are not part of the model: a call that only they would refuse returns here.
\<close>

definition white :: color where
  "white = (255, 255, 255)"

definition pil_new :: "string \<Rightarrow> int \<times> int \<Rightarrow> color \<Rightarrow> error + image" where
  "pil_new m s c =
     (if fst s < 0 \<or> snd s < 0 then Inl (ValueError ''Width and height must be >= 0'')
      else Inr (New m s c))"

definition pil_convert :: "image \<Rightarrow> string \<Rightarrow> image" where
  "pil_convert im m = Convert m im"

definition pil_resize :: "image \<Rightarrow> int \<times> int \<Rightarrow> error + image" where
  "pil_resize im s =
     (if im_size im = s then Inr im
      else if fst s < 1 \<or> snd s < 1 then Inl (ValueError ''height and width must be > 0'')
      else Inr (Resize s im))"

definition quoted :: "string \<Rightarrow> string" where
  "quoted s = CHR 0x27 # s @ [CHR 0x27]"

definition pil_crop :: "image \<Rightarrow> int \<times> int \<times> int \<times> int \<Rightarrow> error + image" where
  "pil_crop im box =
     (case box of (left, upper, right, lower) \<Rightarrow>
        if right < left
        then Inl (ValueError (''Coordinate '' @ quoted ''right'' @ '' is less than ''
                                @ quoted ''left''))
        else if lower < upper
        then Inl (ValueError (''Coordinate '' @ quoted ''lower'' @ '' is less than ''
                                @ quoted ''upper''))
        else Inr (Crop box im))"

definition pil_paste :: "image \<Rightarrow> image \<Rightarrow> int \<times> int \<Rightarrow> image option \<Rightarrow> image" where
  "pil_paste base im pos msk = Paste base im pos msk"

definition pil_split_last :: "image \<Rightarrow> image" where
  "pil_split_last im = Last_band im"

text \<open>
  What can be said of a pixel without resampling anything. \<open>background_at im x y\<close> is the
  colour of the pixel when it is a pixel of a canvas that nothing was pasted over, and
  \<open>None\<close> when it comes from image content.
\<close>

fun background_at :: "image \<Rightarrow> int \<Rightarrow> int \<Rightarrow> color option" where
  "background_at (New m (w, h) c) x y =
     (if 0 \<le> x \<and> x < w \<and> 0 \<le> y \<and> y < h then Some c else None)"
| "background_at (Paste base im (px, py) msk) x y =
     (if px \<le> x \<and> x < px + fst (im_size im) \<and> py \<le> y \<and> y < py + snd (im_size im)
      then None else background_at base x y)"
| "background_at _ x y = None"

text \<open>
  The number of bands of a mode, and where the alpha band of an image comes from: from
  the decoded file (its own alpha band, or the transparency of its palette once the
  palette is expanded), from a conversion or a canvas that made a band of its own
  (\<open>Added_alpha\<close>: this band is not the alpha band of the source; it is opaque everywhere
  unless the metadata of the image names a transparent colour, and the metadata of an
  image is not followed here), or from nowhere, when the mode has no alpha band.
\<close>

definition bands :: "string \<Rightarrow> nat" where
  "bands m =
     (case map_of [(''1'', 1), (''L'', 1), (''P'', 1), (''I'', 1), (''F'', 1), (''LA'', 2),
                  (''PA'', 2), (''RGB'', 3), (''YCbCr'', 3), (''LAB'', 3), (''HSV'', 3),
                  (''RGBA'', 4), (''RGBX'', 4), (''CMYK'', 4)] m of
        None \<Rightarrow> 0 | Some n \<Rightarrow> n)"




subsection \<open>Presets and \<^verbatim>\<open>get_preset_dimensions\<close>\<close>

datatype ResizePreset = SQUARE_1080 | HD_1080P | PASSPORT | CUSTOM

definition PRESET_DIMENSIONS :: "(ResizePreset \<times> int \<times> int) list" where
  "PRESET_DIMENSIONS =
     [(SQUARE_1080, (1080, 1080)), (HD_1080P, (1920, 1080)), (PASSPORT, (413, 531))]"

definition get_preset_dimensions ::
  "ResizePreset \<Rightarrow> (int \<times> int) option \<Rightarrow> error + int \<times> int" where
  "get_preset_dimensions preset custom_size =
     (if preset = CUSTOM then
        (case custom_size of
           None \<Rightarrow> Inl (ValueError ''Custom size must be provided for CUSTOM preset'')
         | Some wh \<Rightarrow> Inr wh)
      else
        (case map_of PRESET_DIMENSIONS preset of
           None \<Rightarrow> Inl (KeyError ''preset'')
         | Some wh \<Rightarrow> Inr wh))"

subsection \<open>\<^verbatim>\<open>resize_image\<close> and \<^verbatim>\<open>crop_to_aspect\<close>\<close>

text \<open>
  \<open>resize_image\<close> first flattens the image to RGB (lines 58 to 70 of the source), then
  either fits it on a white canvas of the target size or stretches it.
\<close>

definition resize_image ::
  "image \<Rightarrow> ResizePreset \<Rightarrow> (int \<times> int) option \<Rightarrow> bool \<Rightarrow> error + image" where
  "resize_image img preset custom_size maintain_aspect =
     and_then (get_preset_dimensions preset custom_size) (\<lambda>(target_width, target_height).
     and_then
       (if im_mode img \<in> set [''RGBA'', ''P'', ''LA''] then
          and_then (pil_new ''RGB'' (im_size img) white) (\<lambda>background.
            let img = (if im_mode img = ''P'' then pil_convert img ''RGBA'' else img)
            in if CHR ''A'' \<in> set (im_mode img)
               then Inr (pil_paste background img (0, 0) (Some (pil_split_last img)))
               else Inr (pil_convert img ''RGB''))
        else if im_mode img \<noteq> ''RGB'' then Inr (pil_convert img ''RGB'')
        else Inr img)
       (\<lambda>img.
          if maintain_aspect then
            (case im_size img of (original_width, original_height) \<Rightarrow>
               and_then (py_truediv target_width original_width) (\<lambda>ratio_w.
               and_then (py_truediv target_height original_height) (\<lambda>ratio_h.
                 let ratio = float_min ratio_w ratio_h
                 in and_then (and_then (py_mul_int_float original_width ratio) py_int) (\<lambda>new_w.
                    and_then (and_then (py_mul_int_float original_height ratio) py_int) (\<lambda>new_h.
                    and_then (pil_resize img (new_w, new_h)) (\<lambda>resized.
                    and_then (pil_new ''RGB'' (target_width, target_height) white) (\<lambda>result.
                      let paste_x = (target_width - new_w) div 2;
                          paste_y = (target_height - new_h) div 2
                      in Inr (pil_paste result resized (paste_x, paste_y) None))))))))
          else pil_resize img (target_width, target_height)))"

text \<open>
  The part of \<^verbatim>\<open>resize_image\<close> after the flattening (lines 72 to 89), once more and under
  a name of its own, for the proofs: \<open>resize_image\<close> is the flattening followed by it
  (lemma \<open>resize_image_parts\<close>).
\<close>

definition fit_or_stretch :: "image \<Rightarrow> int \<Rightarrow> int \<Rightarrow> bool \<Rightarrow> error + image" where
  "fit_or_stretch img target_width target_height maintain_aspect =
     (if maintain_aspect then
        (case im_size img of (original_width, original_height) \<Rightarrow>
           and_then (py_truediv target_width original_width) (\<lambda>ratio_w.
           and_then (py_truediv target_height original_height) (\<lambda>ratio_h.
             let ratio = float_min ratio_w ratio_h
             in and_then (and_then (py_mul_int_float original_width ratio) py_int) (\<lambda>new_w.
                and_then (and_then (py_mul_int_float original_height ratio) py_int) (\<lambda>new_h.
                and_then (pil_resize img (new_w, new_h)) (\<lambda>resized.
                and_then (pil_new ''RGB'' (target_width, target_height) white) (\<lambda>result.
                  let paste_x = (target_width - new_w) div 2;
                      paste_y = (target_height - new_h) div 2
                  in Inr (pil_paste result resized (paste_x, paste_y) None))))))))
      else pil_resize img (target_width, target_height))"

definition crop_to_aspect :: "image \<Rightarrow> int \<Rightarrow> int \<Rightarrow> error + image" where
  "crop_to_aspect img target_width target_height =
     and_then (py_truediv target_width target_height) (\<lambda>target_ratio.
       case im_size img of (original_width, original_height) \<Rightarrow>
         and_then (py_truediv original_width original_height) (\<lambda>original_ratio.
         and_then
           (if float_less target_ratio original_ratio then
              and_then (and_then (py_mul_int_float original_height target_ratio) py_int)
                (\<lambda>new_width.
                   let left = (original_width - new_width) div 2
                   in pil_crop img (left, 0, left + new_width, original_height))
            else
              and_then (and_then (py_div_int_float original_width target_ratio) py_int)
                (\<lambda>new_height.
                   let top = (original_height - new_height) div 2
                   in pil_crop img (0, top, original_width, top + new_height)))
           (\<lambda>img. pil_resize img (target_width, target_height))))"

subsection \<open>\<^verbatim>\<open>convert_format\<close>\<close>

definition format_map :: "(string \<times> string \<times> string) list" where
  "format_map =
     [(''JPEG'', (''.jpg'', ''RGB'')), (''JPG'', (''.jpg'', ''RGB'')),
      (''PNG'', (''.png'', ''RGBA'')), (''WEBP'', (''.webp'', ''RGBA''))]"

definition convert_format :: "image \<Rightarrow> string \<Rightarrow> error + image \<times> string" where
  "convert_format img target_format =
     (case map_of format_map (py_upper target_format) of
        None \<Rightarrow> Inl (ValueError (''Unsupported format: '' @ target_format))
      | Some (extension, mode) \<Rightarrow>
          and_then
            (if mode = ''RGB'' \<and> im_mode img \<in> set [''RGBA'', ''P'', ''LA''] then
               and_then (pil_new ''RGB'' (im_size img) white) (\<lambda>background.
                 let img = (if im_mode img = ''P'' then pil_convert img ''RGBA'' else img)
                 in if CHR ''A'' \<in> set (im_mode img)
                    then Inr (pil_paste background img (0, 0) (Some (pil_split_last img)))
                    else Inr (pil_convert img ''RGB''))
             else if mode = ''RGBA'' \<and> im_mode img \<notin> set [''RGBA'', ''LA''] then
               (if im_mode img = ''P'' then Inr (pil_convert img ''RGBA'')
                else if im_mode img = ''RGB'' then Inr (pil_convert img ''RGBA'')
                else Inr img)
             else Inr img)
            (\<lambda>img. Inr (img, extension)))"

subsection \<open>\<^verbatim>\<open>process_image\<close>\<close>

text \<open>
  The codecs are parameters. \<open>decode\<close> stands for \<^verbatim>\<open>Image.open\<close>: the mode and size of the
  image the bytes hold, or nothing when they are no image. \<open>encode\<close> stands for
  \<^verbatim>\<open>Image.save\<close> into a buffer: from the image and the keyword arguments to the encoded
  content, of any type \<open>'b\<close>, or an exception.
\<close>

record save_kwargs =
  kw_format :: string
  kw_quality :: "int option"
  kw_optimize :: "bool option"

record 'b codec =
  decode :: "bytes \<Rightarrow> (string \<times> int \<times> int) option"
  encode :: "image \<Rightarrow> save_kwargs \<Rightarrow> error + 'b"

definition pil_open :: "'b codec \<Rightarrow> bytes \<Rightarrow> error + image" where
  "pil_open c image_data =
     (case decode c image_data of
        None \<Rightarrow> Inl UnidentifiedImageError
      | Some (m, s) \<Rightarrow> Inr (Decoded m s image_data))"

text \<open>
  The body of \<^verbatim>\<open>process_image\<close> is embedded in the sections that its comments mark:
  \<^verbatim>\<open># Resize\<close> (lines 233 to 247), \<^verbatim>\<open># Determine output format\<close> (lines 249 to 261)
  and \<^verbatim>\<open># Save to bytes\<close> (lines 263 to 279). The keyword defaults are passed
  explicitly. \<^verbatim>\<open>if target_format\<close> takes \<^verbatim>\<open>None\<close> and the empty string alike.
\<close>

definition resize_section ::
  "image \<Rightarrow> ResizePreset \<Rightarrow> (int \<times> int) option \<Rightarrow> bool \<Rightarrow> bool \<Rightarrow> int \<Rightarrow> int
     \<Rightarrow> error + image" where
  "resize_section img preset custom_size maintain_aspect crop_to_fit target_width
       target_height =
     (if crop_to_fit then
        and_then
          (if im_mode img \<in> set [''RGBA'', ''P'', ''LA''] then
             and_then (pil_new ''RGB'' (im_size img) white) (\<lambda>background.
               let img = (if im_mode img = ''P'' then pil_convert img ''RGBA'' else img)
               in if CHR ''A'' \<in> set (im_mode img)
                  then Inr (pil_paste background img (0, 0) (Some (pil_split_last img)))
                  else Inr img)
           else if im_mode img \<noteq> ''RGB'' then Inr (pil_convert img ''RGB'')
           else Inr img)
          (\<lambda>img. crop_to_aspect img target_width target_height)
      else resize_image img preset custom_size maintain_aspect)"

definition format_section ::
  "image \<Rightarrow> string \<Rightarrow> string option \<Rightarrow> error + image \<times> string \<times> string" where
  "format_section processed filename target_format =
     (if target_format \<noteq> None \<and> target_format \<noteq> Some [] then
        and_then (convert_format processed (the target_format)) (\<lambda>(processed, extension).
          let save_format = py_upper (the target_format);
              save_format = (if save_format = ''JPG'' then ''JPEG'' else save_format)
          in Inr (processed, extension, save_format))
      else
        let orig_ext = (if CHR ''.'' \<in> set filename then py_lower (snd (rsplit_dot filename))
                        else ''png'');
            extension = CHR ''.'' # orig_ext;
            save_format = py_upper orig_ext;
            save_format = (if save_format = ''JPG'' then ''JPEG'' else save_format)
        in Inr (processed, extension, save_format))"

definition save_section ::
  "'b codec \<Rightarrow> image \<Rightarrow> string \<Rightarrow> string \<Rightarrow> int \<Rightarrow> error + 'b \<times> string" where
  "save_section c processed extension save_format quality =
     (let save_kwargs =
            (if save_format \<in> set [''JPEG'', ''WEBP'']
             then \<lparr>kw_format = save_format, kw_quality = Some quality, kw_optimize = Some True\<rparr>
             else if save_format = ''PNG''
             then \<lparr>kw_format = save_format, kw_quality = None, kw_optimize = Some True\<rparr>
             else \<lparr>kw_format = save_format, kw_quality = None, kw_optimize = None\<rparr>);
          processed = (if save_format = ''JPEG'' \<and> im_mode processed \<noteq> ''RGB''
                       then pil_convert processed ''RGB'' else processed)
      in and_then (encode c processed save_kwargs) (\<lambda>output. Inr (output, extension)))"

definition process_image ::
  "'b codec \<Rightarrow> bytes \<Rightarrow> string \<Rightarrow> ResizePreset \<Rightarrow> (int \<times> int) option \<Rightarrow> string option
     \<Rightarrow> bool \<Rightarrow> bool \<Rightarrow> int \<Rightarrow> error + 'b \<times> string" where
  "process_image c image_data filename preset custom_size target_format maintain_aspect
       crop_to_fit quality =
     and_then (pil_open c image_data) (\<lambda>img.
     and_then (get_preset_dimensions preset custom_size) (\<lambda>(target_width, target_height).
     and_then (resize_section img preset custom_size maintain_aspect crop_to_fit target_width
                 target_height) (\<lambda>processed.
     and_then (format_section processed filename target_format)
       (\<lambda>(processed, extension, save_format).
          save_section c processed extension save_format quality))))"

subsection \<open>\<^verbatim>\<open>batch_process\<close>\<close>

text \<open>
  An input is the dict \<^verbatim>\<open>{'data': ..., 'name': ...}\<close>. The progress callback acts on a
  state of its caller's, of any type \<open>'s\<close>; \<open>batch_process\<close> returns that state after the
  calls it made, beside its own outcome. \<open>batch_loop\<close> is the \<^verbatim>\<open>for\<close> loop: \<open>idx\<close> is the
  index \<^verbatim>\<open>enumerate\<close> gives the head of the remaining list, \<open>results\<close> the list built so
  far. An exception leaves the loop and the function at once.
\<close>

record image_dict =
  data :: bytes
  name :: string

text \<open>\<^verbatim>\<open>if progress_callback: progress_callback(current, total)\<close>\<close>

definition notify_step :: "(nat \<Rightarrow> nat \<Rightarrow> 's \<Rightarrow> 's) option \<Rightarrow> nat \<Rightarrow> nat \<Rightarrow> 's \<Rightarrow> 's" where
  "notify_step progress_callback current total_n s =
     (case progress_callback of None \<Rightarrow> s | Some notify \<Rightarrow> notify current total_n s)"

fun batch_loop ::
  "'b codec \<Rightarrow> ResizePreset \<Rightarrow> (int \<times> int) option \<Rightarrow> string option \<Rightarrow> bool \<Rightarrow> bool \<Rightarrow> int
     \<Rightarrow> string \<Rightarrow> string \<Rightarrow> bool \<Rightarrow> (nat \<Rightarrow> nat \<Rightarrow> 's \<Rightarrow> 's) option \<Rightarrow> nat
     \<Rightarrow> nat \<Rightarrow> image_dict list \<Rightarrow> ('b \<times> string) list \<Rightarrow> 's
     \<Rightarrow> 's \<times> (error + ('b \<times> string) list)" where
  "batch_loop c preset custom_size target_format maintain_aspect crop_to_fit quality
       prefix suffix use_numbering progress_callback total_n idx [] results s =
     (s, Inr results)"
| "batch_loop c preset custom_size target_format maintain_aspect crop_to_fit quality
       prefix suffix use_numbering progress_callback total_n idx (img_dict # rest) results s =
     (case process_image c (data img_dict) (name img_dict) preset custom_size target_format
             maintain_aspect crop_to_fit quality of
        Inl err \<Rightarrow> (s, Inl err)
      | Inr (processed_data, extension) \<Rightarrow>
          let new_filename = generate_filename (name img_dict) (int idx + 1) prefix suffix
                               use_numbering (Some extension);
              results = results @ [(processed_data, new_filename)];
              s = notify_step progress_callback (idx + 1) total_n s
          in batch_loop c preset custom_size target_format maintain_aspect crop_to_fit quality
               prefix suffix use_numbering progress_callback total_n (idx + 1) rest results s)"

definition batch_process ::
  "'b codec \<Rightarrow> image_dict list \<Rightarrow> ResizePreset \<Rightarrow> (int \<times> int) option \<Rightarrow> string option
     \<Rightarrow> bool \<Rightarrow> bool \<Rightarrow> int \<Rightarrow> string \<Rightarrow> string \<Rightarrow> bool
     \<Rightarrow> (nat \<Rightarrow> nat \<Rightarrow> 's \<Rightarrow> 's) option \<Rightarrow> 's \<Rightarrow> 's \<times> (error + ('b \<times> string) list)" where
  "batch_process c images preset custom_size target_format maintain_aspect crop_to_fit
       quality prefix suffix use_numbering progress_callback s =
     batch_loop c preset custom_size target_format maintain_aspect crop_to_fit quality
       prefix suffix use_numbering progress_callback (length images) 0 images [] s"

subsection \<open>\<^verbatim>\<open>create_zip\<close>\<close>

text \<open>
  A \<^verbatim>\<open>ZipFile\<close> opened for writing is its compression method and the entries written so
  far, in the order of writing. \<^verbatim>\<open>writestr\<close> makes a \<^verbatim>\<open>ZipInfo\<close> of the name, which cuts
  the name at its first NUL character (on a system whose path separator is the slash
  nothing else is changed), looks at the last character of the name it keeps, which
  raises \<^verbatim>\<open>IndexError\<close> on an empty name (CPython 3.11), and writes the header, where the
  length of the name is packed into 16 bits: a name of more than 65535 bytes raises
  \<^verbatim>\<open>struct.error\<close>. Otherwise it appends one entry, compressed by the method of the
  archive, whether or not the name is already there. The date of the entry, which is read
  from the clock, is not part of the model. A string is its bytes in UTF-8, so
  that \<open>length\<close> is the length that is packed. \<open>zip_loop\<close> is the \<^verbatim>\<open>for\<close> loop of
  \<^verbatim>\<open>create_zip\<close>; an exception leaves the loop and the function. \<open>create_zip\<close> returns the
  archive that the buffer holds when the \<^verbatim>\<open>with\<close> block closes.
\<close>

datatype zip_method = ZIP_STORED | ZIP_DEFLATED | ZIP_BZIP2 | ZIP_LZMA

record 'b zip_info =
  filename :: string
  content :: 'b
  compress_type :: zip_method







subsection \<open>A codec for the examples\<close>

text \<open>
  Two bytes \<open>[w, h]\<close> are an RGB image of \<open>w\<close> by \<open>h\<close> pixels, three bytes \<open>[w, h, a]\<close>
  an RGBA image of that size, anything else is no image. Saving never fails and returns
  the image with the keyword arguments it was saved with.
\<close>

definition example_codec :: "(image \<times> save_kwargs) codec" where
  "example_codec =
     \<lparr>decode = (\<lambda>bs. case bs of
                        [w, h] \<Rightarrow> Some (''RGB'', (int w, int h))
                      | [w, h, a] \<Rightarrow> Some (''RGBA'', (int w, int h))
                      | _ \<Rightarrow> None),
       encode = (\<lambda>im kw. Inr (im, kw))\<rparr>"

section \<open>Properties\<close>

subsection \<open>Filename generation\<close>

lemma rsplit_dot_append:
  assumes "CHR ''.'' \<notin> set b"
  shows "rsplit_dot (a @ CHR ''.'' # b) = (a, b)"
proof -
  have all: "\<forall>x\<in>set (rev b). x \<noteq> CHR ''.''"
    using assms by auto
  have tw: "takeWhile (\<lambda>c. c \<noteq> CHR ''.'') (rev b @ CHR ''.'' # rev a) = rev b"
    using all by (simp add: takeWhile_tail)
  show ?thesis
    by (simp add: rsplit_dot_def tw)
qed

lemma spec_strip_extension_append:
  "CHR ''.'' \<notin> set b \<Longrightarrow> spec_strip_extension (a @ CHR ''.'' # b) = a"
  by (induction a) auto

lemma spec_original_extension_append:
  "CHR ''.'' \<notin> set b \<Longrightarrow> spec_original_extension (a @ CHR ''.'' # b) = CHR ''.'' # b"
  by (induction a) auto

lemma spec_strip_extension_no_dot:
  "CHR ''.'' \<notin> set s \<Longrightarrow> spec_strip_extension s = s"
  by (cases s) auto

lemma spec_original_extension_no_dot:
  "CHR ''.'' \<notin> set s \<Longrightarrow> spec_original_extension s = []"
  by (cases s) auto

lemma spec_zero_pad_zfill: "spec_zero_pad w s = zfill w s"
proof (induction w s rule: spec_zero_pad.induct)
  case (1 w s)
  show ?case
  proof (cases "length s < w")
    case True
    then have "spec_zero_pad w s = zfill w (CHR ''0'' # s)"
      using 1 by (simp add: spec_zero_pad.simps [of w s])
    also have "\<dots> = zfill w s"
    proof -
      have "w - length s = Suc (w - Suc (length s))"
        using True by simp
      then show ?thesis
        by (simp add: zfill_def replicate_app_Cons_same)
    qed
    finally show ?thesis .
  next
    case False
    then show ?thesis
      by (simp add: spec_zero_pad.simps [of w s] zfill_def)
  qed
qed

text \<open>
  The source, with its split at the last dot replaced by the two recursive functions of
  the specification; the number and the choice of the extension are still the source's.
\<close>

lemma generate_filename_split:
  "generate_filename original_name index prefix suffix use_numbering extension =
     prefix @ spec_strip_extension original_name @ suffix
       @ (if use_numbering then ''_'' @ format_04d index else [])
       @ (case extension of None \<Rightarrow> spec_original_extension original_name
          | Some ext \<Rightarrow> if ext = [] then spec_original_extension original_name else ext)"
proof (cases "CHR ''.'' \<in> set original_name")
  case True
  then obtain a b where ab: "original_name = a @ CHR ''.'' # b" "CHR ''.'' \<notin> set b"
    by (meson split_list_last)
  show ?thesis
    using True ab(2)
    by (simp add: generate_filename_def ab(1) rsplit_dot_append
        spec_strip_extension_append spec_original_extension_append split: option.splits)
next
  case False
  then show ?thesis
    by (simp add: generate_filename_def spec_strip_extension_no_dot
        spec_original_extension_no_dot split: option.splits)
qed

text \<open>
  Claim C5. For every original name, prefix, suffix, numbering flag, index from 0 on (the
  batch counts from 1) and non-empty final extension, \<open>generate_filename\<close> returns what
  the rule of the specification gives: the name stripped of the text from its last dot,
  between prefix and suffix, then, with numbering, an underscore and the index
  zero-padded to 4 digits, then the final extension. With no extension given (\<^verbatim>\<open>None\<close>
  or the empty string), the final extension is the original one, the text from the last
  dot on. The scenario of the specification yields \<^verbatim>\<open>out_img_0003.png\<close>.
\<close>

theorem generate_filename_refines_spec:
  "(0 \<le> index \<and> ext \<noteq> [] \<longrightarrow>
      generate_filename original_name index prefix suffix numbered (Some ext)
        = spec_filename original_name (nat index) prefix suffix numbered ext)
   \<and> (0 \<le> index \<longrightarrow>
      generate_filename original_name index prefix suffix numbered None
        = spec_filename original_name (nat index) prefix suffix numbered
            (spec_original_extension original_name)
      \<and> generate_filename original_name index prefix suffix numbered (Some [])
        = spec_filename original_name (nat index) prefix suffix numbered
            (spec_original_extension original_name))
   \<and> generate_filename ''img.bmp'' 3 ''out_'' [] True (Some ''.png'') = ''out_img_0003.png''"
proof -
  have example:
    "generate_filename ''img.bmp'' 3 ''out_'' [] True (Some ''.png'') = ''out_img_0003.png''"
    by (simp add: generate_filename_def rsplit_dot_def format_04d_def zfill_def decimal.simps
        eval_nat_numeral)
  have general: "0 \<le> index \<Longrightarrow> format_04d index = spec_zero_pad 4 (decimal (nat index))"
    by (simp add: format_04d_def spec_zero_pad_zfill)
  show ?thesis
    using example general
    by (simp add: generate_filename_split spec_filename_def)
qed

theorem generate_filename_refines_spec_witness:
  "(0::int) \<le> 12 \<and> ''.webp'' \<noteq> []
   \<and> generate_filename ''a.b.jpeg'' 12 ''p'' ''s'' True (Some ''.webp'')
       = spec_filename ''a.b.jpeg'' (nat 12) ''p'' ''s'' True ''.webp''
   \<and> spec_filename ''a.b.jpeg'' 12 ''p'' ''s'' True ''.webp'' = ''pa.bs_0012.webp''"
  using generate_filename_refines_spec [of 12 "''.webp''" "''a.b.jpeg''" "''p''" "''s''" True]
  by (simp add: spec_filename_def spec_zero_pad.simps decimal.simps)

text \<open>
  Claim C10. With numbering off, the generated name does not depend on the index: any two
  indices give the same string, whatever the name, prefix, suffix and extension.
\<close>

theorem generate_filename_ignores_index:
  "generate_filename original_name i prefix suffix False extension
     = generate_filename original_name j prefix suffix False extension"
  by (simp add: generate_filename_def)

theorem generate_filename_ignores_index_witness:
  "generate_filename ''img.bmp'' 1 ''out_'' ''_v1'' False (Some ''.png'')
     = generate_filename ''img.bmp'' 9999 ''out_'' ''_v1'' False (Some ''.png'')"
  by (rule generate_filename_ignores_index)

subsection \<open>The archive\<close>







subsection \<open>Format conversion\<close>

lemma map_of_format_map:
  "map_of format_map u = None \<longleftrightarrow> u \<notin> set [''JPEG'', ''JPG'', ''PNG'', ''WEBP'']"
  by (simp add: format_map_def)

text \<open>
  Claim C9. \<open>convert_format\<close> raises the error for an unsupported format, the
  \<^verbatim>\<open>ValueError\<close> with the message \<^verbatim>\<open>Unsupported format:\<close> and the requested name, if and
  only if the requested name in upper case is none of JPEG, JPG, PNG and WEBP, whatever
  the image; requesting TIFF raises it. (Upper case is taken on the ASCII letters.)
\<close>

theorem convert_format_unsupported:
  "(convert_format img target_format = Inl (ValueError (''Unsupported format: '' @ target_format))
      \<longleftrightarrow> py_upper target_format \<notin> set [''JPEG'', ''JPG'', ''PNG'', ''WEBP''])
   \<and> convert_format img ''TIFF'' = Inl (ValueError ''Unsupported format: TIFF'')"
proof -
  have tiff: "convert_format img ''TIFF'' = Inl (ValueError ''Unsupported format: TIFF'')"
    by (simp add: convert_format_def py_upper_def upper_char_def format_map_def)
  have iff:
    "convert_format img target_format = Inl (ValueError (''Unsupported format: '' @ target_format))
      \<longleftrightarrow> py_upper target_format \<notin> set [''JPEG'', ''JPG'', ''PNG'', ''WEBP'']"
  proof (cases "map_of format_map (py_upper target_format)")
    case None
    then show ?thesis
      using map_of_format_map [of "py_upper target_format"] by (simp add: convert_format_def)
  next
    case (Some em)
    obtain extension mode where em: "em = (extension, mode)"
      by (cases em)
    have "convert_format img target_format
            \<noteq> Inl (ValueError (''Unsupported format: '' @ target_format))"
      using Some em
      by (auto simp: convert_format_def pil_new_def Let_def split: sum.splits if_splits)
    then show ?thesis
      using Some map_of_format_map [of "py_upper target_format"] by simp
  qed
  show ?thesis
    using tiff iff by simp
qed

theorem convert_format_unsupported_witness:
  "convert_format (Decoded ''RGB'' (640, 480) []) ''webp''
     \<noteq> Inl (ValueError ''Unsupported format: webp'')
   \<and> convert_format (Decoded ''RGB'' (640, 480) []) ''gif''
     = Inl (ValueError ''Unsupported format: gif'')"
  using convert_format_unsupported [of "Decoded ''RGB'' (640, 480) []" "''webp''"]
    convert_format_unsupported [of "Decoded ''RGB'' (640, 480) []" "''gif''"]
  by (simp add: py_upper_def upper_char_def)

subsection \<open>The batch\<close>

text \<open>
  The loop on a list whose items all succeed, from any index, list of results and state
  of the observer on.
\<close>

lemma batch_loop_all_ok:
  assumes "\<forall>img_dict\<in>set rest. \<exists>r. process_image c (data img_dict) (name img_dict) preset
             custom_size target_format maintain_aspect crop_to_fit quality = Inr r"
  shows "batch_loop c preset custom_size target_format maintain_aspect crop_to_fit quality
           prefix suffix use_numbering progress_callback total_n idx rest results s =
         (fold (\<lambda>(i, img_dict). notify_step progress_callback (i + 1) total_n)
            (enumerate idx rest) s,
          Inr (results @ map (\<lambda>(i, img_dict).
                 case process_image c (data img_dict) (name img_dict) preset custom_size
                        target_format maintain_aspect crop_to_fit quality of
                   Inr (processed_data, extension) \<Rightarrow>
                     (processed_data,
                      generate_filename (name img_dict) (int i + 1) prefix suffix
                        use_numbering (Some extension)))
               (enumerate idx rest)))"
  using assms
proof (induction rest arbitrary: idx results s)
  case Nil
  then show ?case by simp
next
  case (Cons img_dict rest)
  from Cons.prems obtain pd ext where
    head: "process_image c (data img_dict) (name img_dict) preset custom_size target_format
             maintain_aspect crop_to_fit quality = Inr (pd, ext)"
    by fastforce
  have tail: "\<forall>img_dict\<in>set rest. \<exists>r. process_image c (data img_dict) (name img_dict) preset
             custom_size target_format maintain_aspect crop_to_fit quality = Inr r"
    using Cons.prems by simp
  show ?case
    by (simp add: head Cons.IH [OF tail] Let_def)
qed

lemma fold_enumerate_upt:
  "fold (\<lambda>(i, x). f (i + 1)) (enumerate k xs) s = fold f [Suc k..<Suc (k + length xs)] s"
proof (induction xs arbitrary: k s)
  case Nil
  then show ?case by simp
next
  case (Cons x xs)
  have "[Suc k..<Suc (k + length (x # xs))] = Suc k # [Suc (Suc k)..<Suc (Suc k + length xs)]"
    by (subst upt_rec) simp
  then show ?case
    using Cons.IH [of "Suc k" "f (Suc k) s"] by simp
qed

text \<open>The loop on a list whose first failing item is \<open>bad\<close>.\<close>

lemma batch_loop_first_failure:
  assumes "\<forall>img_dict\<in>set pre. \<exists>r. process_image c (data img_dict) (name img_dict) preset
             custom_size target_format maintain_aspect crop_to_fit quality = Inr r"
      and "process_image c (data bad) (name bad) preset custom_size target_format
             maintain_aspect crop_to_fit quality = Inl err"
  shows "batch_loop c preset custom_size target_format maintain_aspect crop_to_fit quality
           prefix suffix use_numbering progress_callback total_n idx (pre @ bad # post) results s =
         (fold (\<lambda>k. notify_step progress_callback k total_n) [Suc idx..<Suc (idx + length pre)] s,
          Inl err)"
  using assms(1)
proof (induction pre arbitrary: idx results s)
  case Nil
  then show ?case by (simp add: assms(2))
next
  case (Cons img_dict pre)
  from Cons.prems obtain pd ext where
    head: "process_image c (data img_dict) (name img_dict) preset custom_size target_format
             maintain_aspect crop_to_fit quality = Inr (pd, ext)"
    by fastforce
  have tail: "\<forall>img_dict\<in>set pre. \<exists>r. process_image c (data img_dict) (name img_dict) preset
             custom_size target_format maintain_aspect crop_to_fit quality = Inr r"
    using Cons.prems by simp
  have "[Suc idx..<Suc (idx + length (img_dict # pre))]
          = Suc idx # [Suc (Suc idx)..<Suc (Suc idx + length pre)]"
    by (subst upt_rec) simp
  then show ?case
    by (simp add: head Cons.IH [OF tail] Let_def)
qed

text \<open>
  Claim C8. On a list of inputs of which none fails, \<open>batch_process\<close> returns one result
  per input, in the order of the inputs: the result at position \<open>i\<close> (from 0) is the
  content that \<open>process_image\<close> made of input \<open>i\<close>, under the name generated from the
  name of input \<open>i\<close>, the sequence number \<open>i + 1\<close> and the extension \<open>process_image\<close>
  returned for it. The progress callback, when there is one, has been called once per
  input, in order, with the count of inputs done and the count of all inputs; with no
  callback the state of the observer is untouched.
\<close>

theorem batch_process_in_order:
  assumes "\<forall>img_dict\<in>set images. \<exists>r. process_image c (data img_dict) (name img_dict) preset
             custom_size target_format maintain_aspect crop_to_fit quality = Inr r"
  shows "batch_process c images preset custom_size target_format maintain_aspect crop_to_fit
           quality prefix suffix use_numbering progress_callback s =
         (fold (\<lambda>k. notify_step progress_callback k (length images)) [1..<Suc (length images)] s,
          Inr (map (\<lambda>(i, img_dict).
                 case process_image c (data img_dict) (name img_dict) preset custom_size
                        target_format maintain_aspect crop_to_fit quality of
                   Inr (processed_data, extension) \<Rightarrow>
                     (processed_data,
                      generate_filename (name img_dict) (int i + 1) prefix suffix
                        use_numbering (Some extension)))
               (enumerate 0 images)))"
  unfolding batch_process_def batch_loop_all_ok [OF assms]
  using fold_enumerate_upt [of "\<lambda>k. notify_step progress_callback k (length images)" 0 images s]
  by simp

text \<open>Three runs of \<open>process_image\<close> with the codec of the examples, stretching to the passport size.\<close>

lemmas pipeline_defs =
  process_image_def resize_section_def format_section_def save_section_def pil_open_def example_codec_def get_preset_dimensions_def
  PRESET_DIMENSIONS_def resize_image_def pil_resize_def pil_new_def pil_paste_def
  pil_convert_def pil_split_last_def white_def convert_format_def format_map_def
  py_lower_def lower_char_def py_upper_def upper_char_def rsplit_dot_def Let_def

lemma example_stretch_png:
  "process_image example_codec [20, 10] ''a.png'' PASSPORT None None False False 95 =
     Inr ((Resize (413, 531) (Decoded ''RGB'' (20, 10) [20, 10]),
           \<lparr>kw_format = ''PNG'', kw_quality = None, kw_optimize = Some True\<rparr>), ''.png'')"
  by (simp add: pipeline_defs)

lemma example_stretch_jpg:
  "process_image example_codec [3, 4, 255] ''b.x.JPG'' PASSPORT None None False False 95 =
     Inr ((Resize (413, 531)
             (Paste (New ''RGB'' (3, 4) (255, 255, 255)) (Decoded ''RGBA'' (3, 4) [3, 4, 255])
                (0, 0) (Some (Last_band (Decoded ''RGBA'' (3, 4) [3, 4, 255])))),
           \<lparr>kw_format = ''JPEG'', kw_quality = Some 95, kw_optimize = Some True\<rparr>), ''.jpg'')"
  by (simp add: pipeline_defs)

lemma example_undecodable:
  "process_image example_codec [] fname preset custom_size target_format maintain_aspect
     crop_to_fit quality = Inl UnidentifiedImageError"
  by (simp add: process_image_def pil_open_def example_codec_def)

theorem batch_process_in_order_witness:
  "batch_process example_codec
     [\<lparr>data = [20, 10], name = ''a.png''\<rparr>, \<lparr>data = [3, 4, 255], name = ''b.x.JPG''\<rparr>]
     PASSPORT None None False False 95 ''p_'' ''_s'' True
     (Some (\<lambda>current total_n calls. calls @ [(current, total_n)])) []
   = ([(1, 2), (2, 2)],
      Inr [((Resize (413, 531) (Decoded ''RGB'' (20, 10) [20, 10]),
             \<lparr>kw_format = ''PNG'', kw_quality = None, kw_optimize = Some True\<rparr>),
            ''p_a_s_0001.png''),
           ((Resize (413, 531)
               (Paste (New ''RGB'' (3, 4) (255, 255, 255)) (Decoded ''RGBA'' (3, 4) [3, 4, 255])
                  (0, 0) (Some (Last_band (Decoded ''RGBA'' (3, 4) [3, 4, 255])))),
             \<lparr>kw_format = ''JPEG'', kw_quality = Some 95, kw_optimize = Some True\<rparr>),
            ''p_b.x_s_0002.jpg'')])"
proof -
  have ok: "\<forall>img_dict\<in>set [\<lparr>data = [20, 10], name = ''a.png''\<rparr>,
                              \<lparr>data = [3, 4, 255], name = ''b.x.JPG''\<rparr>].
              \<exists>r. process_image example_codec (data img_dict) (name img_dict) PASSPORT None
                     None False False 95 = Inr r"
    by (simp add: example_stretch_png example_stretch_jpg)
  have names:
    "generate_filename ''a.png'' 1 ''p_'' ''_s'' True (Some ''.png'') = ''p_a_s_0001.png''"
    "generate_filename ''b.x.JPG'' 2 ''p_'' ''_s'' True (Some ''.jpg'') = ''p_b.x_s_0002.jpg''"
    by (simp_all add: generate_filename_def rsplit_dot_def format_04d_def zfill_def
        decimal.simps eval_nat_numeral)
  show ?thesis
    using batch_process_in_order [OF ok, where prefix = "''p_''" and suffix = "''_s''"
        and use_numbering = True
        and progress_callback = "Some (\<lambda>current total_n calls. calls @ [(current, total_n)])"
        and s = "[]"]
    by (simp add: example_stretch_png example_stretch_jpg names notify_step_def upt_rec)
qed

text \<open>
  Claim C6, amended. When an item of the batch fails, \<open>batch_process\<close> stops at the first
  such item: it returns no list of results, it does not process the item again or any
  item after it, and the progress callback has been called for the items before it and
  no other. The exception it raises is the one \<open>process_image\<close> raised for the item, as
  it is: nothing of the item's index or filename is added to it.
\<close>

theorem batch_process_first_failure:
  assumes "\<forall>img_dict\<in>set pre. \<exists>r. process_image c (data img_dict) (name img_dict) preset
             custom_size target_format maintain_aspect crop_to_fit quality = Inr r"
      and "process_image c (data bad) (name bad) preset custom_size target_format
             maintain_aspect crop_to_fit quality = Inl err"
  shows "batch_process c (pre @ bad # post) preset custom_size target_format maintain_aspect
           crop_to_fit quality prefix suffix use_numbering progress_callback s =
         (fold (\<lambda>k. notify_step progress_callback k (length (pre @ bad # post)))
            [1..<Suc (length pre)] s,
          Inl err)"
  unfolding batch_process_def
  using batch_loop_first_failure [OF assms, of prefix suffix use_numbering progress_callback
      "length (pre @ bad # post)" 0 post "[]" s]
  by simp

theorem batch_process_first_failure_witness:
  "batch_process example_codec
     ([\<lparr>data = [20, 10], name = ''a.png''\<rparr>] @ \<lparr>data = [], name = ''broken.png''\<rparr>
        # [\<lparr>data = [3, 4, 255], name = ''b.x.JPG''\<rparr>])
     PASSPORT None None False False 95 ''p_'' ''_s'' True
     (Some (\<lambda>current total_n calls. calls @ [(current, total_n)])) []
   = ([(1, 3)], Inl UnidentifiedImageError)"
proof -
  have ok: "\<forall>img_dict\<in>set [\<lparr>data = [20, 10], name = ''a.png''\<rparr>].
              \<exists>r. process_image example_codec (data img_dict) (name img_dict) PASSPORT None
                     None False False 95 = Inr r"
    by (simp add: example_stretch_png)
  have bad: "process_image example_codec (data \<lparr>data = [], name = ''broken.png''\<rparr>)
               (name \<lparr>data = [], name = ''broken.png''\<rparr>) PASSPORT None None False False 95
             = Inl UnidentifiedImageError"
    by (simp add: example_undecodable)
  show ?thesis
    using batch_process_first_failure [OF ok bad, where prefix = "''p_''" and suffix = "''_s''"
        and use_numbering = True
        and progress_callback = "Some (\<lambda>current total_n calls. calls @ [(current, total_n)])"
        and s = "[]" and post = "[\<lparr>data = [3, 4, 255], name = ''b.x.JPG''\<rparr>]"]
    by (simp add: notify_step_def upt_rec)
qed

text \<open>
  The claim as stated fails: a batch that fails at its first item, \<^verbatim>\<open>first.png\<close>, and a
  batch that fails at its second item, \<^verbatim>\<open>second.jpg\<close>, raise the same exception, which
  holds neither an index nor a name.
\<close>

theorem batch_error_without_item_counterexample:
  "snd (batch_process example_codec [\<lparr>data = [], name = ''first.png''\<rparr>]
          PASSPORT None None False False 95 [] [] False None ())
     = Inl UnidentifiedImageError
   \<and> snd (batch_process example_codec
            [\<lparr>data = [20, 10], name = ''a.png''\<rparr>, \<lparr>data = [], name = ''second.jpg''\<rparr>]
            PASSPORT None None False False 95 [] [] False None ())
     = Inl UnidentifiedImageError"
  by (simp add: batch_process_def example_stretch_png example_undecodable)

subsection \<open>Configuration\<close>

lemma get_preset_dimensions_error:
  "get_preset_dimensions preset custom_size = Inl err \<longleftrightarrow>
     preset = CUSTOM \<and> custom_size = None
       \<and> err = ValueError ''Custom size must be provided for CUSTOM preset''"
  by (cases preset; cases custom_size)
     (auto simp: get_preset_dimensions_def PRESET_DIMENSIONS_def)

text \<open>
  Claim C1, amended. Resolving the dimensions fails exactly when the preset is Custom and
  no custom pair is given, with a \<^verbatim>\<open>ValueError\<close>; a custom pair that is given is returned
  as it is, whatever the signs of its width and height. The quality is checked nowhere:
  the save section hands it to the encoder as it is for JPEG and WEBP and drops it for
  every other format. \<open>process_image\<close> resolves the dimensions after it has opened the bytes of the
  item: bytes that are no image raise the error of the decoder whatever the
  configuration, and bytes that are an image, under Custom with no pair, raise the
  \<^verbatim>\<open>ValueError\<close> before anything is transformed or encoded. A batch whose first item is
  an image then fails with this error, with no result and no call of the callback.
\<close>

theorem configuration_errors:
  "(get_preset_dimensions preset custom_size = Inl err \<longleftrightarrow>
      preset = CUSTOM \<and> custom_size = None
        \<and> err = ValueError ''Custom size must be provided for CUSTOM preset'')
   \<and> get_preset_dimensions CUSTOM (Some wh) = Inr wh
   \<and> (decode c image_data = None \<longrightarrow>
        process_image c image_data fname preset custom_size target_format maintain_aspect
          crop_to_fit quality = Inl UnidentifiedImageError)
   \<and> (decode c image_data \<noteq> None \<longrightarrow>
        process_image c image_data fname CUSTOM None target_format maintain_aspect
          crop_to_fit quality
          = Inl (ValueError ''Custom size must be provided for CUSTOM preset''))
   \<and> (decode c (data img_dict) \<noteq> None \<longrightarrow>
        batch_process c (img_dict # rest) CUSTOM None target_format maintain_aspect
          crop_to_fit quality prefix suffix use_numbering progress_callback s
          = (s, Inl (ValueError ''Custom size must be provided for CUSTOM preset'')))
   \<and> save_section c processed extension save_format quality
       = and_then
           (encode c
              (if save_format = ''JPEG'' \<and> im_mode processed \<noteq> ''RGB''
               then Convert ''RGB'' processed else processed)
              \<lparr>kw_format = save_format,
                 kw_quality = (if save_format \<in> set [''JPEG'', ''WEBP''] then Some quality
                               else None),
                 kw_optimize = (if save_format \<in> set [''JPEG'', ''WEBP'', ''PNG'']
                                then Some True else None)\<rparr>)
           (\<lambda>encoded. Inr (encoded, extension))"
proof -
  have save: "save_section c processed extension save_format quality
       = and_then
           (encode c
              (if save_format = ''JPEG'' \<and> im_mode processed \<noteq> ''RGB''
               then Convert ''RGB'' processed else processed)
              \<lparr>kw_format = save_format,
                 kw_quality = (if save_format \<in> set [''JPEG'', ''WEBP''] then Some quality
                               else None),
                 kw_optimize = (if save_format \<in> set [''JPEG'', ''WEBP'', ''PNG'']
                                then Some True else None)\<rparr>)
           (\<lambda>encoded. Inr (encoded, extension))"
    by (simp add: save_section_def pil_convert_def Let_def)
  have undecodable: "decode c image_data = None \<Longrightarrow>
        process_image c image_data fname preset custom_size target_format maintain_aspect
          crop_to_fit quality = Inl UnidentifiedImageError"
    by (simp add: process_image_def pil_open_def)
  have missing: "decode c bs \<noteq> None \<Longrightarrow>
        process_image c bs fname' CUSTOM None target_format maintain_aspect
          crop_to_fit quality
          = Inl (ValueError ''Custom size must be provided for CUSTOM preset'')"
    for bs fname'
    by (auto simp: process_image_def pil_open_def get_preset_dimensions_def)
  have batch: "decode c (data img_dict) \<noteq> None \<Longrightarrow>
        batch_process c (img_dict # rest) CUSTOM None target_format maintain_aspect
          crop_to_fit quality prefix suffix use_numbering progress_callback s
          = (s, Inl (ValueError ''Custom size must be provided for CUSTOM preset''))"
    by (simp add: batch_process_def missing)
  show ?thesis
    using get_preset_dimensions_error [of preset custom_size err] undecodable
      missing [of image_data fname] batch save
    by (simp add: get_preset_dimensions_def)
qed

theorem configuration_errors_witness:
  "decode example_codec [] = None
   \<and> process_image example_codec [] ''a.png'' CUSTOM None None True False 95
       = Inl UnidentifiedImageError
   \<and> decode example_codec [20, 10] \<noteq> None
   \<and> process_image example_codec [20, 10] ''a.png'' CUSTOM None None True False 95
       = Inl (ValueError ''Custom size must be provided for CUSTOM preset'')
   \<and> batch_process example_codec [\<lparr>data = [20, 10], name = ''a.png''\<rparr>] CUSTOM None None
         True False 95 [] [] False None ()
       = ((), Inl (ValueError ''Custom size must be provided for CUSTOM preset''))"
proof -
  have none: "decode example_codec [] = None"
    by (simp add: example_codec_def)
  have some: "decode example_codec [20, 10] \<noteq> None"
       "decode example_codec (data \<lparr>data = [20, 10], name = ''a.png''\<rparr>) \<noteq> None"
    by (simp_all add: example_codec_def)
  show ?thesis
    using none some
      configuration_errors [where c = example_codec and image_data = "[]"
        and fname = "''a.png''" and preset = CUSTOM and custom_size = None
        and err = "ValueError []" and wh = "(1, 1)"
        and target_format = None and maintain_aspect = True and crop_to_fit = False
        and quality = 95
        and img_dict = "\<lparr>data = [20, 10], name = ''a.png''\<rparr>" and rest = "[]"
        and prefix = "[]" and suffix = "[]" and use_numbering = False
        and progress_callback = None and s = "()"
        and processed = "Decoded ''RGB'' (20, 10) [20, 10]" and extension = "''.png''"
        and save_format = "''PNG''"]
      configuration_errors [where c = example_codec and image_data = "[20, 10]"
        and fname = "''a.png''" and preset = CUSTOM and custom_size = None
        and err = "ValueError []" and wh = "(1, 1)"
        and target_format = None and maintain_aspect = True
        and crop_to_fit = False and quality = 95
        and img_dict = "\<lparr>data = [20, 10], name = ''a.png''\<rparr>" and rest = "[]"
        and prefix = "[]" and suffix = "[]" and use_numbering = False
        and progress_callback = None and s = "()"
        and processed = "Decoded ''RGB'' (20, 10) [20, 10]" and extension = "''.png''"
        and save_format = "''PNG''"]
    by simp
qed

text \<open>
  The claim as stated fails: a custom size of 0 by -5 is resolved without an error, a
  quality of 0 changes nothing for a PNG, a quality of 101 is passed on to the encoder,
  bytes that are no image raise the error of the decoder before the missing custom size
  is looked at, and an empty batch with a missing custom size and a quality of 0 returns
  the empty list.
\<close>

theorem configuration_not_validated_counterexample:
  "get_preset_dimensions CUSTOM (Some (0, - 5)) = Inr (0, - 5)
   \<and> process_image example_codec [20, 10] ''a.png'' PASSPORT None None False False 0
       = Inr ((Resize (413, 531) (Decoded ''RGB'' (20, 10) [20, 10]),
               \<lparr>kw_format = ''PNG'', kw_quality = None, kw_optimize = Some True\<rparr>), ''.png'')
   \<and> process_image example_codec [20, 10] ''a.jpg'' PASSPORT None None False False 101
       = Inr ((Resize (413, 531) (Decoded ''RGB'' (20, 10) [20, 10]),
               \<lparr>kw_format = ''JPEG'', kw_quality = Some 101, kw_optimize = Some True\<rparr>), ''.jpg'')
   \<and> process_image example_codec [] ''a.png'' CUSTOM None None True False 95
       = Inl UnidentifiedImageError
   \<and> batch_process example_codec [] CUSTOM None None True False 0 [] [] False None ()
       = ((), Inr [])"
  by (simp add: pipeline_defs batch_process_def)

subsection \<open>Resizing\<close>

text \<open>The float arithmetic of the examples, evaluated.\<close>

lemmas float_defs =
  py_truediv_def py_float_def py_mul_int_float_def py_div_int_float_def round_scaled_def
  round_ratio_def scaled_le_def overflows_def float_min_def bit_length.simps Let_def

lemma ratio_1080_2000: "py_truediv 1080 2000 = Inr (Finite 4863887597560136 (- 53))"
  by (simp add: float_defs cong: let_weak_cong)

lemma ratio_1080_1000: "py_truediv 1080 1000 = Inr (Finite 4863887597560136 (- 52))"
  by (simp add: float_defs cong: let_weak_cong)

lemma ratio_1080_1: "py_truediv 1080 1 = Inr (Finite 4749890231992320 (- 42))"
  by (simp add: float_defs cong: let_weak_cong)

lemma ratio_min:
  "float_min (Finite 4863887597560136 (- 53)) (Finite 4863887597560136 (- 52))
     = Finite 4863887597560136 (- 53)"
  "float_min (Finite 4863887597560136 (- 53)) (Finite 4749890231992320 (- 42))
     = Finite 4863887597560136 (- 53)"
  by (simp_all add: float_min_def)

lemma scaled_width:
  "and_then (py_mul_int_float 2000 (Finite 4863887597560136 (- 53))) py_int = Inr 1080"
  by (simp add: float_defs cong: let_weak_cong)

lemma scaled_height:
  "and_then (py_mul_int_float 1000 (Finite 4863887597560136 (- 53))) py_int = Inr 540"
  by (simp add: float_defs cong: let_weak_cong)

lemma scaled_height_thin:
  "and_then (py_mul_int_float 1 (Finite 4863887597560136 (- 53))) py_int = Inr 0"
  by (simp add: float_defs cong: let_weak_cong)

lemma fit_2000x1000:
  assumes "im_size img = (2000, 1000)"
  shows "\<exists>inner. resize_image img SQUARE_1080 None True
            = Inr (Paste (New ''RGB'' (1080, 1080) white) (Resize (1080, 540) inner) (0, 270) None)
          \<and> im_size inner = (2000, 1000)"
  using assms
  by (simp add: resize_image_def get_preset_dimensions_def PRESET_DIMENSIONS_def
      pil_new_def pil_paste_def pil_convert_def pil_split_last_def pil_resize_def
      ratio_1080_2000 ratio_1080_1000 ratio_min scaled_width scaled_height Let_def)

lemma fit_2000x1000_rgb:
  "resize_image (Decoded ''RGB'' (2000, 1000) image_data) SQUARE_1080 None True
     = Inr (Paste (New ''RGB'' (1080, 1080) white)
              (Resize (1080, 540) (Decoded ''RGB'' (2000, 1000) image_data)) (0, 270) None)"
  by (simp add: resize_image_def get_preset_dimensions_def PRESET_DIMENSIONS_def
      pil_new_def pil_paste_def pil_resize_def
      ratio_1080_2000 ratio_1080_1000 ratio_min scaled_width scaled_height Let_def)

lemma fit_bands:
  "im_size inner = (1080, 540) \<Longrightarrow>
   background_at (Paste (New ''RGB'' (1080, 1080) white) inner (0, 270) None) x y = Some white
     \<longleftrightarrow> 0 \<le> x \<and> x < 1080 \<and> (0 \<le> y \<and> y < 270 \<or> 810 \<le> y \<and> y < 1080)"
  by auto

text \<open>
  Claim C4, amended. For a 2000 by 1000 input, the preset Square and the strategy Fit,
  the result is a white canvas of exactly 1080 by 1080 on which the content, scaled to
  1080 by 540 (the ratio is the double nearest to 0.54), is pasted at the offset (0, 270):
  the content spans the full width of 1080, and the white bands above and below it are
  270 pixels thick, rows 0 to 269 and rows 810 to 1079. For an RGB input named
  \<^verbatim>\<open>photo.png\<close> with no target format, \<open>process_image\<close> saves this very image as PNG.
\<close>

theorem fit_2000x1000_into_square:
  "(im_size img = (2000, 1000) \<longrightarrow>
      (\<exists>inner.
         resize_image img SQUARE_1080 None True
           = Inr (Paste (New ''RGB'' (1080, 1080) white) (Resize (1080, 540) inner) (0, 270) None)
         \<and> im_size inner = (2000, 1000)))
   \<and> (im_size img = (2000, 1000) \<and> resize_image img SQUARE_1080 None True = Inr out \<longrightarrow>
        im_size out = (1080, 1080)
        \<and> (background_at out x y = Some white
             \<longleftrightarrow> 0 \<le> x \<and> x < 1080 \<and> (0 \<le> y \<and> y < 270 \<or> 810 \<le> y \<and> y < 1080)))
   \<and> (decode c image_data = Some (''RGB'', (2000, 1000)) \<longrightarrow>
        process_image c image_data ''photo.png'' SQUARE_1080 None None True False quality
          = and_then
              (encode c
                 (Paste (New ''RGB'' (1080, 1080) white)
                    (Resize (1080, 540) (Decoded ''RGB'' (2000, 1000) image_data)) (0, 270) None)
                 \<lparr>kw_format = ''PNG'', kw_quality = None, kw_optimize = Some True\<rparr>)
              (\<lambda>output. Inr (output, ''.png'')))"
proof -
  have bands: "im_size out = (1080, 1080)
        \<and> (background_at out x y = Some white
             \<longleftrightarrow> 0 \<le> x \<and> x < 1080 \<and> (0 \<le> y \<and> y < 270 \<or> 810 \<le> y \<and> y < 1080))"
    if "im_size img = (2000, 1000)" "resize_image img SQUARE_1080 None True = Inr out"
  proof -
    from fit_2000x1000 [OF that(1)] that(2) obtain inner where
      "out = Paste (New ''RGB'' (1080, 1080) white) (Resize (1080, 540) inner) (0, 270) None"
      by auto
    then show ?thesis
      using fit_bands [of "Resize (1080, 540) inner" x y] by simp
  qed
  note rgb = fit_2000x1000_rgb [of image_data]
  have whole: "process_image c image_data ''photo.png'' SQUARE_1080 None None True False quality
          = and_then
              (encode c
                 (Paste (New ''RGB'' (1080, 1080) white)
                    (Resize (1080, 540) (Decoded ''RGB'' (2000, 1000) image_data)) (0, 270) None)
                 \<lparr>kw_format = ''PNG'', kw_quality = None, kw_optimize = Some True\<rparr>)
              (\<lambda>output. Inr (output, ''.png''))"
    if "decode c image_data = Some (''RGB'', (2000, 1000))"
    using that
    by (simp add: process_image_def resize_section_def format_section_def save_section_def
        pil_open_def rgb get_preset_dimensions_def PRESET_DIMENSIONS_def rsplit_dot_def
        py_lower_def lower_char_def py_upper_def upper_char_def Let_def)
  show ?thesis
    using fit_2000x1000 [of img] bands whole by blast
qed

theorem fit_2000x1000_into_square_witness:
  "im_size (Decoded ''RGB'' (2000, 1000) [2000, 1000]) = (2000, 1000)
   \<and> resize_image (Decoded ''RGB'' (2000, 1000) [2000, 1000]) SQUARE_1080 None True
       = Inr (Paste (New ''RGB'' (1080, 1080) white)
                (Resize (1080, 540) (Decoded ''RGB'' (2000, 1000) [2000, 1000])) (0, 270) None)
   \<and> im_size (Paste (New ''RGB'' (1080, 1080) white)
                (Resize (1080, 540) (Decoded ''RGB'' (2000, 1000) [2000, 1000])) (0, 270) None)
       = (1080, 1080)
   \<and> background_at (Paste (New ''RGB'' (1080, 1080) white)
                (Resize (1080, 540) (Decoded ''RGB'' (2000, 1000) [2000, 1000])) (0, 270) None)
         540 269 = Some white
   \<and> decode example_codec [2000, 1000] = Some (''RGB'', (2000, 1000))
   \<and> process_image example_codec [2000, 1000] ''photo.png'' SQUARE_1080 None None True False 95
     = Inr ((Paste (New ''RGB'' (1080, 1080) white)
               (Resize (1080, 540) (Decoded ''RGB'' (2000, 1000) [2000, 1000])) (0, 270) None,
             \<lparr>kw_format = ''PNG'', kw_quality = None, kw_optimize = Some True\<rparr>), ''.png'')"
proof -
  have size: "im_size (Decoded ''RGB'' (2000, 1000) [2000, 1000]) = (2000, 1000)"
    by simp
  have dec: "decode example_codec [2000, 1000] = Some (''RGB'', (2000, 1000))"
    by (simp add: example_codec_def)
  have enc: "encode example_codec im kw = Inr (im, kw)" for im kw
    by (simp add: example_codec_def)
  show ?thesis
    using size dec fit_2000x1000_rgb [of "[2000, 1000]"]
      fit_2000x1000_into_square [where img = "Decoded ''RGB'' (2000, 1000) [2000, 1000]"
        and c = example_codec and image_data = "[2000, 1000]" and quality = 95
        and out = "Paste (New ''RGB'' (1080, 1080) white)
                (Resize (1080, 540) (Decoded ''RGB'' (2000, 1000) [2000, 1000])) (0, 270) None"
        and x = 540 and y = 269]
    by (simp add: enc)
qed

text \<open>
  The claim as stated fails: in column 540 the rows 135 and 944, which bands of 135
  pixels would leave to the content, are white canvas.
\<close>

theorem fit_band_135_counterexample:
  "resize_image (Decoded ''RGB'' (2000, 1000) []) SQUARE_1080 None True
     = Inr (Paste (New ''RGB'' (1080, 1080) white)
              (Resize (1080, 540) (Decoded ''RGB'' (2000, 1000) [])) (0, 270) None)
   \<and> background_at (Paste (New ''RGB'' (1080, 1080) white)
                      (Resize (1080, 540) (Decoded ''RGB'' (2000, 1000) [])) (0, 270) None)
        540 135 = Some white
   \<and> background_at (Paste (New ''RGB'' (1080, 1080) white)
                      (Resize (1080, 540) (Decoded ''RGB'' (2000, 1000) [])) (0, 270) None)
        540 944 = Some white"
  by (simp add: fit_2000x1000_rgb)

text \<open>
  Claim C2. The claim asks each strategy to return an image of the target size for every
  input of positive size. Fit does not: a 2000 by 1 input scaled by 0.54 gets the height
  \<open>int(0.54) = 0\<close>, and the resize to 1080 by 0 raises.
\<close>

theorem resize_image_fit_thin_source_raises:
  "resize_image (Decoded ''RGB'' (2000, 1) []) SQUARE_1080 None True
     = Inl (ValueError ''height and width must be > 0'')"
  by (simp add: resize_image_def get_preset_dimensions_def PRESET_DIMENSIONS_def
      pil_new_def pil_paste_def pil_resize_def
      ratio_1080_2000 ratio_1080_1 ratio_min scaled_width scaled_height_thin Let_def)

subsection \<open>Colour modes\<close>




















text \<open>
  The same for every strategy of \<open>resize_image\<close>: on a source with an alpha band, a palette
  or any other mode than RGB, it returns what it returns on the flattened source.
\<close>

lemma resize_image_parts:
  "resize_image img preset custom_size maintain_aspect =
     and_then (get_preset_dimensions preset custom_size) (\<lambda>(target_width, target_height).
     and_then
       (if im_mode img \<in> set [''RGBA'', ''P'', ''LA''] then
          and_then (pil_new ''RGB'' (im_size img) white) (\<lambda>background.
            let img = (if im_mode img = ''P'' then pil_convert img ''RGBA'' else img)
            in if CHR ''A'' \<in> set (im_mode img)
               then Inr (pil_paste background img (0, 0) (Some (pil_split_last img)))
               else Inr (pil_convert img ''RGB''))
        else if im_mode img \<noteq> ''RGB'' then Inr (pil_convert img ''RGB'')
        else Inr img)
       (\<lambda>img. fit_or_stretch img target_width target_height maintain_aspect))"
  unfolding resize_image_def fit_or_stretch_def by (rule refl)

lemma resize_image_rgb:
  "im_mode flat = ''RGB'' \<Longrightarrow>
     resize_image flat preset custom_size maintain_aspect =
       and_then (get_preset_dimensions preset custom_size) (\<lambda>(target_width, target_height).
         fit_or_stretch flat target_width target_height maintain_aspect)"
  by (simp add: resize_image_parts)









end
